theory Spec2Isabelle
  imports Complex_Main
begin

section \<open>The fragment shader of shader.js\<close>

text \<open>
  The fragment stage is the GLSL text held in \<open>fragmentShaderSource\<close>. GLSL \<open>float\<close> values
  are embedded as exact reals: \<open>sin\<close>, \<open>exp\<close>, \<open>abs\<close> and the arithmetic operators are the
  mathematical ones, and the rounding of \<open>precision mediump float\<close> is not part of the model.
  A \<open>vec2\<close>, \<open>vec3\<close> and \<open>vec4\<close> are tuples of components; the GLSL \<open>int\<close> loop counter is
  an \<open>int\<close>.
\<close>

type_synonym vec2 = "real \<times> real"
type_synonym vec3 = "real \<times> real \<times> real"
type_synonym vec4 = "real \<times> real \<times> real \<times> real"

text \<open>Component-wise operators of GLSL used by the shader.\<close>

definition vec2_div :: "vec2 \<Rightarrow> vec2 \<Rightarrow> vec2" where
  "vec2_div a b = (fst a / fst b, snd a / snd b)"

definition vec2_sub_scalar :: "vec2 \<Rightarrow> real \<Rightarrow> vec2" where
  "vec2_sub_scalar a k = (fst a - k, snd a - k)"

fun vec3_add :: "vec3 \<Rightarrow> vec3 \<Rightarrow> vec3" where
  "vec3_add (r, g, b) (r', g', b') = (r + r', g + g', b + b')"

fun vec3_scale :: "real \<Rightarrow> vec3 \<Rightarrow> vec3" where
  "vec3_scale k (r, g, b) = (k * r, k * g, k * b)"

fun vec4_of :: "vec3 \<Rightarrow> real \<Rightarrow> vec4" where
  "vec4_of (r, g, b) a = (r, g, b, a)"

text \<open>
  The GLSL built-ins \<open>clamp\<close> and \<open>smoothstep\<close>, as the GLSL ES specification defines them:
  \<open>t = clamp((x - edge0) / (edge1 - edge0), 0, 1); return t * t * (3 - 2 * t);\<close>
\<close>

definition clamp :: "real \<Rightarrow> real \<Rightarrow> real \<Rightarrow> real" where
  "clamp v lo hi = min (max v lo) hi"

definition smoothstep :: "real \<Rightarrow> real \<Rightarrow> real \<Rightarrow> real" where
  "smoothstep edge0 edge1 v =
     (let t = clamp ((v - edge0) / (edge1 - edge0)) 0 1 in t * t * (3 - 2 * t))"

text \<open>
  The locals of one pass through the loop body, for the counter value \<open>i\<close>:
  \<^verbatim>\<open>
    float t = float(i)/6.0;
    float speed = 1.0 + t;
    float wave = sin(iTime * speed * 0.2 + uv.y * 8.0) * 0.2;
    float line = 1.0 - smoothstep(0.003, 0.008, abs(uv.x - wave));
    float blur = exp(-abs(uv.x - wave) * 20.0) * 0.3;
  \<close>
\<close>

definition wave :: "vec2 \<Rightarrow> real \<Rightarrow> int \<Rightarrow> real" where
  "wave uv iTime i =
     (let t = real_of_int i / 6.0;
          speed = 1.0 + t
      in sin (iTime * speed * 0.2 + snd uv * 8.0) * 0.2)"

definition line :: "vec2 \<Rightarrow> real \<Rightarrow> int \<Rightarrow> real" where
  "line uv iTime i = 1.0 - smoothstep 0.003 0.008 (abs (fst uv - wave uv iTime i))"

definition blur :: "vec2 \<Rightarrow> real \<Rightarrow> int \<Rightarrow> real" where
  "blur uv iTime i = exp (- abs (fst uv - wave uv iTime i) * 20.0) * 0.3"

text \<open>
  \<^verbatim>\<open>for(int i=0;i<6;i++){ ... col += (line + blur) * vec3(0.2+t, 0.3, 0.8); }\<close>
  The loop is a recursion on the counter, carrying the accumulated colour.
\<close>

function loop :: "vec2 \<Rightarrow> real \<Rightarrow> int \<Rightarrow> vec3 \<Rightarrow> vec3" where
  "loop uv iTime i col =
     (if i < 6 then
        let t = real_of_int i / 6.0
        in loop uv iTime (i + 1)
             (vec3_add col
                (vec3_scale (line uv iTime i + blur uv iTime i) (0.2 + t, 0.3, 0.8)))
      else col)"
  by pat_completeness auto
termination
  by (relation "measure (\<lambda>(uv, iTime, i, col). nat (6 - i))") auto

declare loop.simps [simp del]

text \<open>
  The body of \<open>main\<close> after \<open>uv\<close> has been computed:
  \<^verbatim>\<open>vec3 col = vec3(0.05, 0.05, 0.1); for (...) {...}; gl_FragColor = vec4(col, 1.0);\<close>
\<close>

definition shade :: "vec2 \<Rightarrow> real \<Rightarrow> vec4" where
  "shade uv iTime =
     (let col = (0.05, 0.05, 0.1);
          col = loop uv iTime 0 col
      in vec4_of col 1.0)"

text \<open>
  What one invocation of the fragment stage can read: the built-in \<open>gl_FragCoord.xy\<close> and
  the two uniforms. Anything else that exists around an invocation lives in the record's
  extension.
\<close>

record frag_input =
  gl_FragCoord :: vec2
  iResolution :: vec2
  iTime :: real

text \<open>\<^verbatim>\<open>vec2 uv = gl_FragCoord.xy / iResolution.xy; uv -= 0.5;\<close>\<close>

definition uv_of :: "'a frag_input_scheme \<Rightarrow> vec2" where
  "uv_of inp =
     (let uv = vec2_div (gl_FragCoord inp) (iResolution inp);
          uv = vec2_sub_scalar uv 0.5
      in uv)"

text \<open>\<open>main\<close> of the fragment stage; the result is the value written to \<open>gl_FragColor\<close>.\<close>

definition main_frag :: "'a frag_input_scheme \<Rightarrow> vec4" where
  "main_frag inp = shade (uv_of inp) (iTime inp)"

subsection \<open>The reference definition of the specification\<close>

text \<open>
  These definitions follow the wording of the specification, not the code: the
  smooth-interpolate of the glossary (0 at and below the lower edge, 1 at and above the
  upper edge, the cubic ease \<open>s * s * (3 - 2 * s)\<close> between), and the colour as the base
  colour plus a sum over \<open>i = 0..5\<close>.
\<close>

definition spec_smooth_interpolate :: "real \<Rightarrow> real \<Rightarrow> real \<Rightarrow> real" where
  "spec_smooth_interpolate d lo hi =
     (if d \<le> lo then 0
      else if hi \<le> d then 1
      else (let s = (d - lo) / (hi - lo) in s * s * (3 - 2 * s)))"

definition spec_f :: "nat \<Rightarrow> real" where
  "spec_f i = real i / 6"

definition spec_wave :: "vec2 \<Rightarrow> real \<Rightarrow> nat \<Rightarrow> real" where
  "spec_wave uv t i = sin (t * (1 + spec_f i) * 0.2 + snd uv * 8) * 0.2"

definition spec_distance :: "vec2 \<Rightarrow> real \<Rightarrow> nat \<Rightarrow> real" where
  "spec_distance uv t i = abs (fst uv - spec_wave uv t i)"

definition spec_line :: "vec2 \<Rightarrow> real \<Rightarrow> nat \<Rightarrow> real" where
  "spec_line uv t i = 1 - spec_smooth_interpolate (spec_distance uv t i) 0.003 0.008"

definition spec_glow :: "vec2 \<Rightarrow> real \<Rightarrow> nat \<Rightarrow> real" where
  "spec_glow uv t i = exp (- spec_distance uv t i * 20) * 0.3"

definition spec_color :: "vec2 \<Rightarrow> real \<Rightarrow> vec4" where
  "spec_color uv t =
     (0.05 + (\<Sum>i\<leftarrow>[0..<6]. (spec_line uv t i + spec_glow uv t i) * (0.2 + spec_f i)),
      0.05 + (\<Sum>i\<leftarrow>[0..<6]. (spec_line uv t i + spec_glow uv t i) * 0.3),
      0.10 + (\<Sum>i\<leftarrow>[0..<6]. (spec_line uv t i + spec_glow uv t i) * 0.8),
      1.0)"

definition spec_uv :: "vec2 \<Rightarrow> vec2 \<Rightarrow> vec2" where
  "spec_uv pixel resolution =
     (fst pixel / fst resolution - 0.5, snd pixel / snd resolution - 0.5)"

section \<open>The fragment shader as program text\<close>

text \<open>
  To speak about what the shader reads, \<open>main\<close> is also kept as the program it is: GLSL
  expressions and statements as data, run by an interpreter over a store that holds every
  variable an invocation could see (built-ins, uniforms, locals and anything else). Only
  the part of GLSL that \<open>fragmentShaderSource\<close> uses is covered; an ill-typed operation or a
  variable that is not there gives \<open>None\<close>. Floats are reals, as above.
\<close>

datatype gval =
    GFloat real
  | GInt int
  | GBool bool
  | GVec2 real real
  | GVec3 real real real
  | GVec4 real real real real

datatype gexpr =
    FloatLit real
  | IntLit int
  | Var string
  | Swizzle_xy gexpr
  | Swizzle_x gexpr
  | Swizzle_y gexpr
  | Add gexpr gexpr
  | Sub gexpr gexpr
  | Mul gexpr gexpr
  | Div gexpr gexpr
  | Neg gexpr
  | Less gexpr gexpr
  | CastFloat gexpr
  | Sin gexpr
  | Exp gexpr
  | Abs gexpr
  | Smoothstep gexpr gexpr gexpr
  | MkVec3 gexpr gexpr gexpr
  | MkVec4 gexpr gexpr

datatype gstmt =
    Skip
  | Seq gstmt gstmt
  | Decl string gexpr
  | Assign string gexpr
  | AddAssign string gexpr
  | SubAssign string gexpr
  | Incr string
  | While gexpr gstmt

text \<open>The store of one invocation: variable name to value, \<open>None\<close> where undefined.\<close>

type_synonym store = "string \<Rightarrow> gval option"

text \<open>
  The binary operators \<open>+ - * /\<close> on floats and vectors: component-wise on two vectors of
  the same size, and with a scalar applied to every component.
\<close>

fun arith :: "(real \<Rightarrow> real \<Rightarrow> real) \<Rightarrow> gval \<Rightarrow> gval \<Rightarrow> gval option" where
  "arith f (GFloat a) (GFloat b) = Some (GFloat (f a b))"
| "arith f (GVec2 a b) (GVec2 c d) = Some (GVec2 (f a c) (f b d))"
| "arith f (GVec3 a b c) (GVec3 a' b' c') = Some (GVec3 (f a a') (f b b') (f c c'))"
| "arith f (GVec4 a b c d) (GVec4 a' b' c' d') = Some (GVec4 (f a a') (f b b') (f c c') (f d d'))"
| "arith f (GVec2 a b) (GFloat k) = Some (GVec2 (f a k) (f b k))"
| "arith f (GVec3 a b c) (GFloat k) = Some (GVec3 (f a k) (f b k) (f c k))"
| "arith f (GVec4 a b c d) (GFloat k) = Some (GVec4 (f a k) (f b k) (f c k) (f d k))"
| "arith f (GFloat k) (GVec2 a b) = Some (GVec2 (f k a) (f k b))"
| "arith f (GFloat k) (GVec3 a b c) = Some (GVec3 (f k a) (f k b) (f k c))"
| "arith f (GFloat k) (GVec4 a b c d) = Some (GVec4 (f k a) (f k b) (f k c) (f k d))"
| "arith f _ _ = None"

fun float1 :: "(real \<Rightarrow> real) \<Rightarrow> gval \<Rightarrow> gval option" where
  "float1 f (GFloat a) = Some (GFloat (f a))"
| "float1 f _ = None"

fun eval :: "store \<Rightarrow> gexpr \<Rightarrow> gval option" where
  "eval \<sigma> (FloatLit r) = Some (GFloat r)"
| "eval \<sigma> (IntLit n) = Some (GInt n)"
| "eval \<sigma> (Var x) = \<sigma> x"
| "eval \<sigma> (Swizzle_xy e) =
     (case eval \<sigma> e of
        Some (GVec2 a b) \<Rightarrow> Some (GVec2 a b)
      | Some (GVec3 a b c) \<Rightarrow> Some (GVec2 a b)
      | Some (GVec4 a b c d) \<Rightarrow> Some (GVec2 a b)
      | _ \<Rightarrow> None)"
| "eval \<sigma> (Swizzle_x e) =
     (case eval \<sigma> e of
        Some (GVec2 a b) \<Rightarrow> Some (GFloat a)
      | Some (GVec3 a b c) \<Rightarrow> Some (GFloat a)
      | Some (GVec4 a b c d) \<Rightarrow> Some (GFloat a)
      | _ \<Rightarrow> None)"
| "eval \<sigma> (Swizzle_y e) =
     (case eval \<sigma> e of
        Some (GVec2 a b) \<Rightarrow> Some (GFloat b)
      | Some (GVec3 a b c) \<Rightarrow> Some (GFloat b)
      | Some (GVec4 a b c d) \<Rightarrow> Some (GFloat b)
      | _ \<Rightarrow> None)"
| "eval \<sigma> (Add a b) =
     (case (eval \<sigma> a, eval \<sigma> b) of
        (Some (GInt m), Some (GInt n)) \<Rightarrow> Some (GInt (m + n))
      | (Some u, Some v) \<Rightarrow> arith (+) u v
      | _ \<Rightarrow> None)"
| "eval \<sigma> (Sub a b) =
     (case (eval \<sigma> a, eval \<sigma> b) of
        (Some (GInt m), Some (GInt n)) \<Rightarrow> Some (GInt (m - n))
      | (Some u, Some v) \<Rightarrow> arith (-) u v
      | _ \<Rightarrow> None)"
| "eval \<sigma> (Mul a b) =
     (case (eval \<sigma> a, eval \<sigma> b) of
        (Some (GInt m), Some (GInt n)) \<Rightarrow> Some (GInt (m * n))
      | (Some u, Some v) \<Rightarrow> arith (*) u v
      | _ \<Rightarrow> None)"
| "eval \<sigma> (Div a b) =
     (case (eval \<sigma> a, eval \<sigma> b) of
        (Some u, Some v) \<Rightarrow> arith (/) u v
      | _ \<Rightarrow> None)"
| "eval \<sigma> (Neg a) =
     (case eval \<sigma> a of
        Some (GInt m) \<Rightarrow> Some (GInt (- m))
      | Some v \<Rightarrow> arith (-) (GFloat 0) v
      | None \<Rightarrow> None)"
| "eval \<sigma> (Less a b) =
     (case (eval \<sigma> a, eval \<sigma> b) of
        (Some (GInt m), Some (GInt n)) \<Rightarrow> Some (GBool (m < n))
      | (Some (GFloat u), Some (GFloat v)) \<Rightarrow> Some (GBool (u < v))
      | _ \<Rightarrow> None)"
| "eval \<sigma> (CastFloat a) =
     (case eval \<sigma> a of
        Some (GInt m) \<Rightarrow> Some (GFloat (real_of_int m))
      | Some (GFloat u) \<Rightarrow> Some (GFloat u)
      | _ \<Rightarrow> None)"
| "eval \<sigma> (Sin a) = (case eval \<sigma> a of Some v \<Rightarrow> float1 sin v | None \<Rightarrow> None)"
| "eval \<sigma> (Exp a) = (case eval \<sigma> a of Some v \<Rightarrow> float1 exp v | None \<Rightarrow> None)"
| "eval \<sigma> (Abs a) = (case eval \<sigma> a of Some v \<Rightarrow> float1 abs v | None \<Rightarrow> None)"
| "eval \<sigma> (Smoothstep a b c) =
     (case (eval \<sigma> a, eval \<sigma> b, eval \<sigma> c) of
        (Some (GFloat e0), Some (GFloat e1), Some (GFloat v)) \<Rightarrow> Some (GFloat (smoothstep e0 e1 v))
      | _ \<Rightarrow> None)"
| "eval \<sigma> (MkVec3 a b c) =
     (case (eval \<sigma> a, eval \<sigma> b, eval \<sigma> c) of
        (Some (GFloat x), Some (GFloat y), Some (GFloat z)) \<Rightarrow> Some (GVec3 x y z)
      | _ \<Rightarrow> None)"
| "eval \<sigma> (MkVec4 a b) =
     (case (eval \<sigma> a, eval \<sigma> b) of
        (Some (GVec3 x y z), Some (GFloat w)) \<Rightarrow> Some (GVec4 x y z w)
      | _ \<Rightarrow> None)"

text \<open>
  Statements. A loop needs fuel: each pass of \<open>While\<close> uses one unit, and a run that has
  none left returns \<open>None\<close>.
\<close>

fun exec :: "nat \<Rightarrow> gstmt \<Rightarrow> store \<Rightarrow> store option" where
  "exec n Skip \<sigma> = Some \<sigma>"
| "exec n (Seq a b) \<sigma> = (case exec n a \<sigma> of None \<Rightarrow> None | Some \<sigma>' \<Rightarrow> exec n b \<sigma>')"
| "exec n (Decl x e) \<sigma> = (case eval \<sigma> e of None \<Rightarrow> None | Some v \<Rightarrow> Some (\<sigma>(x \<mapsto> v)))"
| "exec n (Assign x e) \<sigma> = (case eval \<sigma> e of None \<Rightarrow> None | Some v \<Rightarrow> Some (\<sigma>(x \<mapsto> v)))"
| "exec n (AddAssign x e) \<sigma> =
     (case eval \<sigma> (Add (Var x) e) of None \<Rightarrow> None | Some v \<Rightarrow> Some (\<sigma>(x \<mapsto> v)))"
| "exec n (SubAssign x e) \<sigma> =
     (case eval \<sigma> (Sub (Var x) e) of None \<Rightarrow> None | Some v \<Rightarrow> Some (\<sigma>(x \<mapsto> v)))"
| "exec n (Incr x) \<sigma> =
     (case \<sigma> x of Some (GInt m) \<Rightarrow> Some (\<sigma>(x \<mapsto> GInt (m + 1))) | _ \<Rightarrow> None)"
| "exec 0 (While c b) \<sigma> = None"
| "exec (Suc n) (While c b) \<sigma> =
     (case eval \<sigma> c of
        Some (GBool True) \<Rightarrow>
          (case exec n b \<sigma> of None \<Rightarrow> None | Some \<sigma>' \<Rightarrow> exec n (While c b) \<sigma>')
      | Some (GBool False) \<Rightarrow> Some \<sigma>
      | _ \<Rightarrow> None)"

definition block :: "gstmt list \<Rightarrow> gstmt" where
  "block ss = foldr Seq ss Skip"

text \<open>\<open>for (init; cond; step) body\<close> is \<open>init\<close> followed by the loop over \<open>body; step\<close>.\<close>

definition for_loop :: "gstmt \<Rightarrow> gexpr \<Rightarrow> gstmt \<Rightarrow> gstmt \<Rightarrow> gstmt" where
  "for_loop init cond step body = Seq init (While cond (Seq body step))"

text \<open>Lines 23 to 35 of the script: the body of the \<open>for\<close> loop.\<close>

definition loop_body :: gstmt where
  "loop_body = block
     [Decl ''t'' (Div (CastFloat (Var ''i'')) (FloatLit 6.0)),
      Decl ''speed'' (Add (FloatLit 1.0) (Var ''t'')),
      Decl ''wave''
        (Mul (Sin (Add (Mul (Mul (Var ''iTime'') (Var ''speed'')) (FloatLit 0.2))
                       (Mul (Swizzle_y (Var ''uv'')) (FloatLit 8.0))))
             (FloatLit 0.2)),
      Decl ''line''
        (Sub (FloatLit 1.0)
             (Smoothstep (FloatLit 0.003) (FloatLit 0.008)
                (Abs (Sub (Swizzle_x (Var ''uv'')) (Var ''wave''))))),
      Decl ''blur''
        (Mul (Exp (Mul (Neg (Abs (Sub (Swizzle_x (Var ''uv'')) (Var ''wave''))))
                       (FloatLit 20.0)))
             (FloatLit 0.3)),
      AddAssign ''col''
        (Mul (Add (Var ''line'') (Var ''blur''))
             (MkVec3 (Add (FloatLit 0.2) (Var ''t'')) (FloatLit 0.3) (FloatLit 0.8)))]"

text \<open>Lines 16 to 39 of the script: \<open>main\<close> of the fragment stage.\<close>

definition fragment_main :: gstmt where
  "fragment_main = block
     [Decl ''uv'' (Div (Swizzle_xy (Var ''gl_FragCoord'')) (Swizzle_xy (Var ''iResolution''))),
      SubAssign ''uv'' (FloatLit 0.5),
      Decl ''col'' (MkVec3 (FloatLit 0.05) (FloatLit 0.05) (FloatLit 0.1)),
      for_loop (Decl ''i'' (IntLit 0)) (Less (Var ''i'') (IntLit 6)) (Incr ''i'') loop_body,
      Assign ''gl_FragColor'' (MkVec4 (Var ''col'') (FloatLit 1.0))]"

text \<open>The value of \<open>gl_FragColor\<close> after \<open>main\<close> has run with fuel \<open>n\<close>.\<close>

definition frag_color :: "nat \<Rightarrow> store \<Rightarrow> gval option" where
  "frag_color n \<sigma> =
     (case exec n fragment_main \<sigma> of None \<Rightarrow> None | Some \<sigma>' \<Rightarrow> \<sigma>' ''gl_FragColor'')"

text \<open>Two stores for a pair of invocations that differ in everything but \<open>uv\<close> and \<open>iTime\<close>.\<close>

definition store_a :: store where
  "store_a =
     [''gl_FragCoord'' \<mapsto> GVec4 400 300 0 1, ''iResolution'' \<mapsto> GVec2 800 600,
      ''iTime'' \<mapsto> GFloat 2]"

definition store_b :: store where
  "store_b =
     [''gl_FragCoord'' \<mapsto> GVec4 200 150 0.5 1, ''iResolution'' \<mapsto> GVec2 400 300,
      ''iTime'' \<mapsto> GFloat 2, ''col'' \<mapsto> GBool True, ''wave'' \<mapsto> GFloat 7,
      ''u_other'' \<mapsto> GFloat 42]"

fun gvec3 :: "vec3 \<Rightarrow> gval" where
  "gvec3 (r, g, b) = GVec3 r g b"

fun gvec4 :: "vec4 \<Rightarrow> gval" where
  "gvec4 (r, g, b, a) = GVec4 r g b a"

section \<open>The host side of shader.js\<close>

text \<open>
  The script talks to three things it does not own: the DOM (\<open>document\<close>, \<open>window\<close>), the
  WebGL context and the console. The answers of the browser and of the GPU driver are the
  fields of a \<open>host\<close> record, left arbitrary. What the script does to the outside is kept
  in its state: the sequence of WebGL calls it issued, the console lines it wrote and the
  animation-frame callbacks it requested.
\<close>

datatype shader_type = VERTEX_SHADER | FRAGMENT_SHADER

text \<open>The two GLSL texts of the script; their content matters to the driver only.\<close>

datatype shader_source = vertexShaderSource | fragmentShaderSource

record shader =
  kind :: shader_type
  source :: "shader_source option"

record gl_program =
  attached :: "shader list"

datatype gl_call =
    CreateShader shader_type
  | ShaderSource shader shader_source
  | CompileShader shader
  | CreateProgram
  | AttachShader gl_program shader
  | LinkProgram gl_program
  | UseProgram gl_program
  | CreateBuffer
  | BindBuffer
  | BufferData "real list"
  | GetAttribLocation gl_program string
  | EnableVertexAttribArray int
  | VertexAttribPointer int nat bool nat nat
  | Viewport int int int int
  | GetUniformLocation gl_program string
  | Uniform2f "nat option" int int
  | Uniform1f "nat option" real
  | DrawArrays nat nat

record gl_context =
  calls :: "gl_call list"
  viewport :: "int \<times> int \<times> int \<times> int"

record canvas_element =
  width :: int
  height :: int

datatype console_entry = ConsoleLog string | ConsoleError string string

record host =
  getElementById :: "string \<Rightarrow> canvas_element option"
  getContext :: "string \<Rightarrow> bool"
  COMPILE_STATUS :: "shader \<Rightarrow> bool"
  getShaderInfoLog :: "shader \<Rightarrow> string"
  getAttribLocation :: "string \<Rightarrow> int"
  getUniformLocation :: "string \<Rightarrow> nat option"
  innerWidth :: int
  innerHeight :: int

text \<open>
  The module-level variables \<open>canvas\<close>, \<open>gl\<close>, \<open>program\<close> (\<open>None\<close> while undefined or
  null) and \<open>startTime\<close>, with the console and the number of pending
  \<open>requestAnimationFrame(render)\<close> requests.
\<close>

record renderer =
  canvas :: "canvas_element option"
  gl :: "gl_context option"
  program :: "gl_program option"
  startTime :: int
  console :: "console_entry list"
  scheduled :: nat

text \<open>
  A function of the script either returns or throws. A WebGL call never throws for a bad
  program or shader (it records a GL error); what throws is a property access or method
  call on \<open>undefined\<close> or \<open>null\<close>. The state reached before the throw stays.
\<close>

datatype js_error = TypeError

datatype outcome = Returned renderer | Threw js_error renderer

text \<open>\<open>let canvas, gl, program; let startTime = Date.now();\<close>\<close>

definition module_init :: "int \<Rightarrow> renderer" where
  "module_init now =
     \<lparr>canvas = None, gl = None, program = None, startTime = now, console = [], scheduled = 0\<rparr>"

definition issue :: "gl_call \<Rightarrow> gl_context \<Rightarrow> gl_context" where
  "issue c g = g\<lparr>calls := calls g @ [c]\<rparr>"

text \<open>\<open>gl.viewport\<close>: a negative width or height is an \<open>INVALID_VALUE\<close> and changes nothing.\<close>

definition gl_viewport :: "int \<Rightarrow> int \<Rightarrow> int \<Rightarrow> int \<Rightarrow> gl_context \<Rightarrow> gl_context" where
  "gl_viewport x y w h g =
     (let g = issue (Viewport x y w h) g
      in if w < 0 \<or> h < 0 then g else g\<lparr>viewport := (x, y, w, h)\<rparr>)"

text \<open>
  \<^verbatim>\<open>
  function resizeCanvas(){
    canvas.width = window.innerWidth;
    canvas.height = window.innerHeight;
    gl.viewport(0,0,canvas.width,canvas.height);
  }
  \<close>
\<close>

definition resizeCanvas :: "host \<Rightarrow> renderer \<Rightarrow> outcome" where
  "resizeCanvas h s =
     (case canvas s of
        None \<Rightarrow> Threw TypeError s
      | Some c \<Rightarrow>
          let c = c\<lparr>width := innerWidth h\<rparr>;
              c = c\<lparr>height := innerHeight h\<rparr>;
              s = s\<lparr>canvas := Some c\<rparr>
          in (case gl s of
                None \<Rightarrow> Threw TypeError s
              | Some g \<Rightarrow>
                  Returned (s\<lparr>gl := Some (gl_viewport 0 0 (width c) (height c) g)\<rparr>)))"

text \<open>
  \<^verbatim>\<open>
  function render(){
    let time = (Date.now()-startTime)/1000;
    const resLoc = gl.getUniformLocation(program,"iResolution");
    const timeLoc = gl.getUniformLocation(program,"iTime");
    gl.uniform2f(resLoc, canvas.width, canvas.height);
    gl.uniform1f(timeLoc, time);
    gl.drawArrays(gl.TRIANGLES,0,6);
    requestAnimationFrame(render);
  }
  \<close>
  \<open>now\<close> is the reading of \<open>Date.now()\<close>, in milliseconds.
\<close>

definition render :: "host \<Rightarrow> int \<Rightarrow> renderer \<Rightarrow> outcome" where
  "render h now s =
     (let time = real_of_int (now - startTime s) / 1000
      in case gl s of
           None \<Rightarrow> Threw TypeError s
         | Some g \<Rightarrow>
             (case program s of
                None \<Rightarrow> Threw TypeError s
              | Some p \<Rightarrow>
                  let resLoc = getUniformLocation h ''iResolution'';
                      g = issue (GetUniformLocation p ''iResolution'') g;
                      timeLoc = getUniformLocation h ''iTime'';
                      g = issue (GetUniformLocation p ''iTime'') g;
                      s = s\<lparr>gl := Some g\<rparr>
                  in (case canvas s of
                        None \<Rightarrow> Threw TypeError s
                      | Some c \<Rightarrow>
                          let g = issue (Uniform2f resLoc (width c) (height c)) g;
                              g = issue (Uniform1f timeLoc time) g;
                              g = issue (DrawArrays 0 6) g
                          in Returned (s\<lparr>gl := Some g, scheduled := scheduled s + 1\<rparr>))))"

text \<open>
  \<open>initShader\<close>, lines 42 to 84 of the script. \<open>now\<close> is the clock reading that the call
  of \<open>render\<close> at its end sees.
\<close>

definition initShader :: "host \<Rightarrow> int \<Rightarrow> renderer \<Rightarrow> outcome" where
  "initShader h now s =
     (let s = s\<lparr>canvas := getElementById h ''shaderCanvas''\<rparr>
      in case canvas s of
           None \<Rightarrow> Threw TypeError s
         | Some c \<Rightarrow>
             let s = s\<lparr>gl := (if getContext h ''webgl''
                               then Some \<lparr>calls = [], viewport = (0, 0, width c, height c)\<rparr>
                               else None)\<rparr>
             in (case gl s of
                   None \<Rightarrow> Returned (s\<lparr>console := console s @ [ConsoleLog ''WebGL not supported'']\<rparr>)
                 | Some g \<Rightarrow>
                     let vs = \<lparr>kind = VERTEX_SHADER, source = None\<rparr>;
                         g = issue (CreateShader VERTEX_SHADER) g;
                         g = issue (ShaderSource vs vertexShaderSource) g;
                         vs = vs\<lparr>source := Some vertexShaderSource\<rparr>;
                         g = issue (CompileShader vs) g;
                         s = (if \<not> COMPILE_STATUS h vs
                              then s\<lparr>console := console s @
                                     [ConsoleError ''Vertex shader error:'' (getShaderInfoLog h vs)]\<rparr>
                              else s);
                         fs = \<lparr>kind = FRAGMENT_SHADER, source = None\<rparr>;
                         g = issue (CreateShader FRAGMENT_SHADER) g;
                         g = issue (ShaderSource fs fragmentShaderSource) g;
                         fs = fs\<lparr>source := Some fragmentShaderSource\<rparr>;
                         g = issue (CompileShader fs) g;
                         s = (if \<not> COMPILE_STATUS h fs
                              then s\<lparr>console := console s @
                                     [ConsoleError ''Fragment shader error:'' (getShaderInfoLog h fs)]\<rparr>
                              else s);
                         p = \<lparr>attached = []\<rparr>;
                         g = issue CreateProgram g;
                         g = issue (AttachShader p vs) g;
                         p = p\<lparr>attached := attached p @ [vs]\<rparr>;
                         g = issue (AttachShader p fs) g;
                         p = p\<lparr>attached := attached p @ [fs]\<rparr>;
                         s = s\<lparr>program := Some p\<rparr>;
                         g = issue (LinkProgram p) g;
                         g = issue (UseProgram p) g;
                         g = issue CreateBuffer g;
                         g = issue BindBuffer g;
                         g = issue (BufferData [-1,-1, 1,-1, -1,1, -1,1, 1,-1, 1,1]) g;
                         positionLocation = getAttribLocation h ''a_position'';
                         g = issue (GetAttribLocation p ''a_position'') g;
                         g = issue (EnableVertexAttribArray positionLocation) g;
                         g = issue (VertexAttribPointer positionLocation 2 False 0 0) g;
                         s = s\<lparr>gl := Some g\<rparr>
                     in (case resizeCanvas h s of
                           Threw e s \<Rightarrow> Threw e s
                         | Returned s \<Rightarrow> render h now s)))"

text \<open>
  \<open>window.onload = initShader; window.onresize = resizeCanvas;\<close> and the callbacks
  requested by \<open>requestAnimationFrame(render)\<close>: the browser runs one handler per event.
  Both handlers are installed when the script is loaded, whatever \<open>initShader\<close> does later.
\<close>

datatype event = Load | Resize | AnimationFrame

fun dispatch :: "host \<Rightarrow> int \<Rightarrow> event \<Rightarrow> renderer \<Rightarrow> outcome" where
  "dispatch h now Load s = initShader h now s"
| "dispatch h now Resize s = resizeCanvas h s"
| "dispatch h now AnimationFrame s =
     (if 0 < scheduled s then render h now (s\<lparr>scheduled := scheduled s - 1\<rparr>)
      else Returned s)"

text \<open>Consecutive frames: one animation-frame event per clock reading, in order.\<close>

fun frames :: "host \<Rightarrow> int list \<Rightarrow> renderer \<Rightarrow> outcome" where
  "frames h [] s = Returned s"
| "frames h (now # nows) s =
     (case dispatch h now AnimationFrame s of
        Threw e s' \<Rightarrow> Threw e s'
      | Returned s' \<Rightarrow> frames h nows s')"

text \<open>The values pushed into \<open>iTime\<close> by \<open>gl.uniform1f(timeLoc, time)\<close>, oldest first.\<close>

fun iTime_values :: "gl_call list \<Rightarrow> real list" where
  "iTime_values [] = []"
| "iTime_values (Uniform1f loc t # cs) = t # iTime_values cs"
| "iTime_values (c # cs) = iTime_values cs"

text \<open>A browser with the canvas element and WebGL, whose driver accepts both shaders.\<close>

definition good_host :: host where
  "good_host =
     \<lparr>getElementById = (\<lambda>name. if name = ''shaderCanvas''
                                then Some \<lparr>width = 300, height = 150\<rparr> else None),
      getContext = (\<lambda>name. name = ''webgl''),
      COMPILE_STATUS = (\<lambda>sh. True),
      getShaderInfoLog = (\<lambda>sh. []),
      getAttribLocation = (\<lambda>name. 0),
      getUniformLocation = (\<lambda>name. if name = ''iResolution'' then Some 0
                                    else if name = ''iTime'' then Some 1 else None),
      innerWidth = 800,
      innerHeight = 600\<rparr>"

text \<open>The same browser with a driver that rejects the fragment source.\<close>

definition bad_fragment_host :: host where
  "bad_fragment_host =
     good_host\<lparr>COMPILE_STATUS := (\<lambda>sh. kind sh \<noteq> FRAGMENT_SHADER),
               getShaderInfoLog := (\<lambda>sh. if kind sh = FRAGMENT_SHADER
                                          then ''ERROR: 0:1: syntax error'' else []),
               getAttribLocation := (\<lambda>name. -1),
               getUniformLocation := (\<lambda>name. None)\<rparr>"

text \<open>The same browser without WebGL: \<open>canvas.getContext("webgl")\<close> is \<open>null\<close>.\<close>

definition no_webgl_host :: host where
  "no_webgl_host = good_host\<lparr>getContext := (\<lambda>name. False)\<rparr>"

text \<open>
  The objects \<open>initShader\<close> ends up with: the two shaders after \<open>gl.shaderSource\<close>, and the
  program after both \<open>gl.attachShader\<close> calls.
\<close>

definition vs_object :: shader where
  "vs_object = \<lparr>kind = VERTEX_SHADER, source = Some vertexShaderSource\<rparr>"

definition fs_object :: shader where
  "fs_object = \<lparr>kind = FRAGMENT_SHADER, source = Some fragmentShaderSource\<rparr>"

definition program_object :: gl_program where
  "program_object = \<lparr>attached = [vs_object, fs_object]\<rparr>"

text \<open>The lines \<open>console.error\<close> writes for the stages the driver rejects, in order.\<close>

definition compile_errors :: "host \<Rightarrow> console_entry list" where
  "compile_errors h =
     (if \<not> COMPILE_STATUS h vs_object
      then [ConsoleError ''Vertex shader error:'' (getShaderInfoLog h vs_object)] else []) @
     (if \<not> COMPILE_STATUS h fs_object
      then [ConsoleError ''Fragment shader error:'' (getShaderInfoLog h fs_object)] else [])"

text \<open>A renderer after a successful start: context, canvas and program present, one frame pending.\<close>

definition running_renderer :: renderer where
  "running_renderer =
     \<lparr>canvas = Some \<lparr>width = 300, height = 150\<rparr>,
      gl = Some \<lparr>calls = [], viewport = (0, 0, 300, 150)\<rparr>,
      program = Some program_object, startTime = 0, console = [], scheduled = 1\<rparr>"

section \<open>Properties of the fragment shader\<close>

lemma smoothstep_eq_spec:
  "lo < hi \<Longrightarrow> smoothstep lo hi d = spec_smooth_interpolate d lo hi"
  by (auto simp: smoothstep_def spec_smooth_interpolate_def clamp_def Let_def
        min_def max_def field_simps)

lemma upt6: "[0..<6] = [0, 1, 2, 3, 4, 5::nat]"
  by (simp add: upt_rec)

text \<open>The six passes of the loop, written out.\<close>

lemma loop_unfold6:
  "loop uv tm 0 col =
     vec3_add (vec3_add (vec3_add (vec3_add (vec3_add (vec3_add col
       (vec3_scale (line uv tm 0 + blur uv tm 0) (0.2 + 0 / 6, 0.3, 0.8)))
       (vec3_scale (line uv tm 1 + blur uv tm 1) (0.2 + 1 / 6, 0.3, 0.8)))
       (vec3_scale (line uv tm 2 + blur uv tm 2) (0.2 + 2 / 6, 0.3, 0.8)))
       (vec3_scale (line uv tm 3 + blur uv tm 3) (0.2 + 3 / 6, 0.3, 0.8)))
       (vec3_scale (line uv tm 4 + blur uv tm 4) (0.2 + 4 / 6, 0.3, 0.8)))
       (vec3_scale (line uv tm 5 + blur uv tm 5) (0.2 + 5 / 6, 0.3, 0.8))"
  by (simp add: loop.simps Let_def del: vec3_add.simps vec3_scale.simps)

lemma wave_spec: "wave uv tm (int i) = spec_wave uv tm i"
  by (simp add: wave_def spec_wave_def spec_f_def Let_def)

lemma line_spec: "line uv tm (int i) = spec_line uv tm i"
  using smoothstep_eq_spec[of "0.003" "0.008"]
  by (simp add: line_def spec_line_def spec_distance_def wave_spec)

lemma blur_spec: "blur uv tm (int i) = spec_glow uv tm i"
  by (simp add: blur_def spec_glow_def spec_distance_def wave_spec)

lemma shade_eq_spec: "shade uv tm = spec_color uv tm"
  using line_spec[of uv tm 0] line_spec[of uv tm 1] line_spec[of uv tm 2]
    line_spec[of uv tm 3] line_spec[of uv tm 4] line_spec[of uv tm 5]
    blur_spec[of uv tm 0] blur_spec[of uv tm 1] blur_spec[of uv tm 2]
    blur_spec[of uv tm 3] blur_spec[of uv tm 4] blur_spec[of uv tm 5]
  by (simp add: shade_def spec_color_def loop_unfold6 upt6 spec_f_def Let_def
        algebra_simps add_divide_distrib)

lemma uv_of_spec: "uv_of inp = spec_uv (gl_FragCoord inp) (iResolution inp)"
  by (simp add: uv_of_def spec_uv_def vec2_div_def vec2_sub_scalar_def)

lemma smoothstep_range: "0 \<le> smoothstep 0.003 0.008 d \<and> smoothstep 0.003 0.008 d \<le> 1"
proof -
  define s where "s = clamp ((d - 0.003) / (0.008 - 0.003)) 0 1"
  have s: "0 \<le> s" "s \<le> 1" by (simp_all add: s_def clamp_def)
  have eq: "smoothstep 0.003 0.008 d = s * s * (3 - 2 * s)"
    by (simp add: smoothstep_def s_def Let_def)
  have "0 \<le> s * s * (3 - 2 * s)" using s by simp
  moreover have "1 - s * s * (3 - 2 * s) = (1 - s) * (1 - s) * (1 + 2 * s)"
    by (simp add: algebra_simps)
  then have "0 \<le> 1 - s * s * (3 - 2 * s)" using s by simp
  ultimately show ?thesis using eq by simp
qed

lemma line_range: "0 \<le> line uv tm i \<and> line uv tm i \<le> 1"
  using smoothstep_range[of "abs (fst uv - wave uv tm i)"] by (simp add: line_def)

text \<open>
  Claim C1. The fragment shading function equals the reference definition of the
  specification: with \<open>uv\<close> the pixel position divided by the resolution and recentred by
  0.5, the colour written by \<open>main\<close> is the base colour (0.05, 0.05, 0.10) plus the sum over
  \<open>i = 0..5\<close> of \<open>(line + glow) * (0.2 + i/6, 0.3, 0.8)\<close>, with alpha 1; and the same holds
  for the shading of any \<open>uv\<close> and any time \<open>t\<close>. The resolution is taken non-zero, as the
  division by it has no meaning otherwise.
\<close>

theorem main_frag_refines_spec:
  assumes "fst (iResolution inp) \<noteq> 0" and "snd (iResolution inp) \<noteq> 0"
  shows "main_frag inp = spec_color (spec_uv (gl_FragCoord inp) (iResolution inp)) (iTime inp)
       \<and> shade uv t = spec_color uv t"
  by (simp add: main_frag_def shade_eq_spec uv_of_spec)

theorem main_frag_refines_spec_witness:
  "main_frag \<lparr>gl_FragCoord = (400, 300), iResolution = (800, 600), iTime = 0\<rparr>
     = spec_color (0, 0) 0 \<and> shade (0, 0) 0 = spec_color (0, 0) 0"
  using main_frag_refines_spec
    [of "\<lparr>gl_FragCoord = (400, 300), iResolution = (800, 600), iTime = 0\<rparr>" "(0, 0)" 0]
  by (simp add: spec_uv_def)

text \<open>
  Claim C4. At \<open>uv = (0,0)\<close> and \<open>t = 0\<close>, every pass of the loop has \<open>wave = 0\<close>,
  distance 0, \<open>line = 1\<close> and \<open>blur = 0.3\<close>, so it adds \<open>1.3 * (0.2 + i/6, 0.3, 0.8)\<close>; the
  colour written is the base colour plus these six contributions, which is
  (4.86, 2.39, 6.34) with alpha 1.
\<close>

theorem shade_at_origin:
  "wave (0, 0) 0 i = 0
   \<and> abs (fst (0 :: real, 0 :: real) - wave (0, 0) 0 i) = 0
   \<and> line (0, 0) 0 i = 1
   \<and> blur (0, 0) 0 i = 0.3
   \<and> vec3_scale (line (0, 0) 0 i + blur (0, 0) 0 i) (0.2 + real_of_int i / 6.0, 0.3, 0.8)
       = vec3_scale 1.3 (0.2 + real_of_int i / 6, 0.3, 0.8)
   \<and> shade (0, 0) 0
       = vec4_of (foldl vec3_add (0.05, 0.05, 0.10)
                   (map (\<lambda>i. vec3_scale 1.3 (0.2 + real_of_int i / 6, 0.3, 0.8))
                      [0, 1, 2, 3, 4, 5])) 1.0
   \<and> shade (0, 0) 0 = (4.86, 2.39, 6.34, 1.0)"
proof -
  have w: "wave (0, 0) 0 j = 0" for j by (simp add: wave_def)
  have l: "line (0, 0) 0 j = 1" for j
    by (simp add: line_def w smoothstep_def clamp_def)
  have b: "blur (0, 0) 0 j = 0.3" for j by (simp add: blur_def w)
  show ?thesis
    by (simp add: w l b shade_def loop_unfold6)
qed

text \<open>
  Claim C5. In every pass of the loop, when the distance \<open>|uv.x - wave|\<close> is exactly 0.003
  the line term is 1, which is its maximum; when the distance is at least 0.008 the line
  term is exactly 0.
\<close>

theorem line_boundaries:
  "(abs (fst uv - wave uv t i) = 0.003 \<longrightarrow> line uv t i = 1)
   \<and> (0.008 \<le> abs (fst uv - wave uv t i) \<longrightarrow> line uv t i = 0)
   \<and> line uv t i \<le> 1"
proof (intro conjI impI)
  assume "abs (fst uv - wave uv t i) = 0.003"
  then have "smoothstep 0.003 0.008 (abs (fst uv - wave uv t i)) = 0"
    using smoothstep_eq_spec[of "0.003" "0.008" "abs (fst uv - wave uv t i)"]
    by (simp add: spec_smooth_interpolate_def)
  then show "line uv t i = 1" by (simp add: line_def)
next
  assume "0.008 \<le> abs (fst uv - wave uv t i)"
  then have "smoothstep 0.003 0.008 (abs (fst uv - wave uv t i)) = 1"
    using smoothstep_eq_spec[of "0.003" "0.008" "abs (fst uv - wave uv t i)"]
    by (simp add: spec_smooth_interpolate_def)
  then show "line uv t i = 0" by (simp add: line_def)
next
  show "line uv t i \<le> 1" using line_range by simp
qed

theorem line_boundaries_witness:
  "abs (fst (0.003 :: real, 0 :: real) - wave (0.003, 0) 0 0) = 0.003 \<and> line (0.003, 0) 0 0 = 1
   \<and> 0.008 \<le> abs (fst (0.5 :: real, 0 :: real) - wave (0.5, 0) 0 0) \<and> line (0.5, 0) 0 0 = 0"
  using line_boundaries [of "(0.003, 0)" 0 0] line_boundaries [of "(0.5, 0)" 0 0]
  by (simp add: wave_def)

text \<open>
  The program text against the functions above: one pass of the loop body followed by
  \<open>i++\<close>, then the whole loop, then \<open>main\<close>.
\<close>

lemma body_step:
  assumes "\<sigma> ''uv'' = Some (GVec2 ux uy)" and "\<sigma> ''iTime'' = Some (GFloat tm)"
    and "\<sigma> ''i'' = Some (GInt i)" and "\<sigma> ''col'' = Some (GVec3 r g b)"
  shows "\<exists>\<sigma>'. exec n (Seq loop_body (Incr ''i'')) \<sigma> = Some \<sigma>'
     \<and> \<sigma>' ''uv'' = Some (GVec2 ux uy) \<and> \<sigma>' ''iTime'' = Some (GFloat tm)
     \<and> \<sigma>' ''i'' = Some (GInt (i + 1))
     \<and> \<sigma>' ''col'' = Some (gvec3 (vec3_add (r, g, b)
           (vec3_scale (line (ux, uy) tm i + blur (ux, uy) tm i)
              (0.2 + real_of_int i / 6.0, 0.3, 0.8))))"
  using assms
  by (simp add: loop_body_def block_def line_def blur_def wave_def Let_def)

lemma while_loop:
  assumes "\<sigma> ''uv'' = Some (GVec2 ux uy)" and "\<sigma> ''iTime'' = Some (GFloat tm)"
    and "\<sigma> ''i'' = Some (GInt i)" and "\<sigma> ''col'' = Some (gvec3 col)"
    and "nat (6 - i) < n"
  shows "\<exists>\<sigma>'. exec n (While (Less (Var ''i'') (IntLit 6)) (Seq loop_body (Incr ''i''))) \<sigma> = Some \<sigma>'
     \<and> \<sigma>' ''col'' = Some (gvec3 (loop (ux, uy) tm i col))"
  using assms
proof (induction "(ux, uy)" tm i col arbitrary: n \<sigma> rule: loop.induct)
  case (1 tm i col)
  obtain r g b where col: "col = (r, g, b)" by (cases col) auto
  obtain m where n: "n = Suc m" using "1.prems"(5) by (cases n) auto
  show ?case
  proof (cases "i < 6")
    case False
    then show ?thesis using "1.prems" n by (simp add: loop.simps[of _ _ i])
  next
    case True
    from body_step[OF "1.prems"(1,2,3), of r g b m] "1.prems"(4) col
    obtain \<sigma>1 where s1: "exec m (Seq loop_body (Incr ''i'')) \<sigma> = Some \<sigma>1"
      "\<sigma>1 ''uv'' = Some (GVec2 ux uy)" "\<sigma>1 ''iTime'' = Some (GFloat tm)"
      "\<sigma>1 ''i'' = Some (GInt (i + 1))"
      "\<sigma>1 ''col'' = Some (gvec3 (vec3_add col
           (vec3_scale (line (ux, uy) tm i + blur (ux, uy) tm i)
              (0.2 + real_of_int i / 6.0, 0.3, 0.8))))"
      by auto
    have fuel: "nat (6 - (i + 1)) < m" using "1.prems"(5) n True by simp
    from "1.hyps"[OF True refl s1(2,3,4,5) fuel]
    obtain \<sigma>' where "exec m (While (Less (Var ''i'') (IntLit 6)) (Seq loop_body (Incr ''i''))) \<sigma>1 = Some \<sigma>'"
      "\<sigma>' ''col'' = Some (gvec3 (loop (ux, uy) tm (i + 1) (vec3_add col
           (vec3_scale (line (ux, uy) tm i + blur (ux, uy) tm i)
              (0.2 + real_of_int i / 6.0, 0.3, 0.8)))))"
      by blast
    then show ?thesis
      using True "1.prems"(3) s1(1) n by (simp add: loop.simps[of _ _ i] Let_def)
  qed
qed

lemma frag_color_main_frag:
  assumes "\<sigma> ''gl_FragCoord'' = Some (GVec4 x y z w)"
    and "\<sigma> ''iResolution'' = Some (GVec2 rw rh)"
    and "\<sigma> ''iTime'' = Some (GFloat tm)"
    and "7 < n"
  shows "frag_color n \<sigma> =
     Some (gvec4 (main_frag \<lparr>gl_FragCoord = (x, y), iResolution = (rw, rh), iTime = tm\<rparr>))"
proof -
  define \<sigma>0 where "\<sigma>0 = \<sigma>(''uv'' \<mapsto> GVec2 (x / rw - 0.5) (y / rh - 0.5),
       ''col'' \<mapsto> GVec3 0.05 0.05 0.1, ''i'' \<mapsto> GInt 0)"
  have f: "nat (6 - 0) < n" using assms(4) by simp
  have "\<sigma>0 ''uv'' = Some (GVec2 (x / rw - 0.5) (y / rh - 0.5))" "\<sigma>0 ''iTime'' = Some (GFloat tm)"
    "\<sigma>0 ''i'' = Some (GInt 0)" "\<sigma>0 ''col'' = Some (gvec3 (0.05, 0.05, 0.1))"
    using assms(3) by (simp_all add: \<sigma>0_def)
  from while_loop[OF this f] obtain \<sigma>1 where
    w: "exec n (While (Less (Var ''i'') (IntLit 6)) (Seq loop_body (Incr ''i''))) \<sigma>0 = Some \<sigma>1"
    and c: "\<sigma>1 ''col'' = Some (gvec3 (loop (x / rw - 0.5, y / rh - 0.5) tm 0 (0.05, 0.05, 0.1)))"
    by blast
  obtain r g b where l: "loop (x / rw - 0.5, y / rh - 0.5) tm 0 (0.05, 0.05, 0.1) = (r, g, b)"
    by (cases "loop (x / rw - 0.5, y / rh - 0.5) tm 0 (0.05, 0.05, 0.1)") auto
  have "exec n fragment_main \<sigma> = Some (\<sigma>1(''gl_FragColor'' \<mapsto> GVec4 r g b 1.0))"
    using assms(1,2) w[unfolded \<sigma>0_def] c l
    by (simp add: fragment_main_def block_def for_loop_def)
  then show ?thesis
    using l by (simp add: frag_color_def main_frag_def shade_def uv_of_def vec2_div_def
        vec2_sub_scalar_def Let_def)
qed

text \<open>
  Claim C8. The fragment shading function is deterministic and reads no state other than
  its inputs: run in any two stores that give the same \<open>uv\<close> and the same \<open>iTime\<close>, with
  any fuel above the seven units the loop needs, \<open>main\<close> returns and writes the same
  colour, whatever else the two stores hold; that colour is the one of \<open>shade\<close>.
\<close>

theorem fragment_main_reads_only_inputs:
  assumes "\<sigma>1 ''gl_FragCoord'' = Some (GVec4 x1 y1 z1 w1)"
    and "\<sigma>1 ''iResolution'' = Some (GVec2 a1 b1)"
    and "\<sigma>1 ''iTime'' = Some (GFloat t)"
    and "\<sigma>2 ''gl_FragCoord'' = Some (GVec4 x2 y2 z2 w2)"
    and "\<sigma>2 ''iResolution'' = Some (GVec2 a2 b2)"
    and "\<sigma>2 ''iTime'' = Some (GFloat t)"
    and "a1 \<noteq> 0" and "b1 \<noteq> 0" and "a2 \<noteq> 0" and "b2 \<noteq> 0"
    and "(x1 / a1 - 0.5, y1 / b1 - 0.5) = (x2 / a2 - 0.5, y2 / b2 - 0.5)"
    and "7 < n1" and "7 < n2"
  shows "frag_color n1 \<sigma>1 = frag_color n2 \<sigma>2
       \<and> frag_color n1 \<sigma>1 = Some (gvec4 (shade (x1 / a1 - 0.5, y1 / b1 - 0.5) t))"
proof -
  have 1: "frag_color n1 \<sigma>1 = Some (gvec4 (shade (x1 / a1 - 0.5, y1 / b1 - 0.5) t))"
    using frag_color_main_frag[OF assms(1,2,3) assms(12)]
    by (simp add: main_frag_def uv_of_def vec2_div_def vec2_sub_scalar_def)
  have 2: "frag_color n2 \<sigma>2 = Some (gvec4 (shade (x2 / a2 - 0.5, y2 / b2 - 0.5) t))"
    using frag_color_main_frag[OF assms(4,5,6) assms(13)]
    by (simp add: main_frag_def uv_of_def vec2_div_def vec2_sub_scalar_def)
  show ?thesis using 1 2 assms(11) by simp
qed

theorem fragment_main_reads_only_inputs_witness:
  "frag_color 8 store_a = frag_color 100 store_b
   \<and> frag_color 8 store_a = Some (gvec4 (shade (0, 0) 2))"
proof -
  have "frag_color 8 store_a = frag_color 100 store_b
     \<and> frag_color 8 store_a = Some (gvec4 (shade (400 / 800 - 0.5, 300 / 600 - 0.5) 2))"
    by (rule fragment_main_reads_only_inputs
          [of store_a 400 300 0 1 800 600 2 store_b 200 150 "0.5" 1 400 300 8 100])
       (simp_all add: store_a_def store_b_def)
  then have same: "frag_color 8 store_a = frag_color 100 store_b"
    and col: "frag_color 8 store_a = Some (gvec4 (shade (400 / 800 - 0.5, 300 / 600 - 0.5) 2))"
    by blast+
  have "frag_color 8 store_a = Some (gvec4 (shade (0, 0) 2))"
    using col by simp
  with same show ?thesis by (rule conjI)
qed

section \<open>Properties of the host side\<close>

lemma issue_calls: "calls (issue c g) = calls g @ [c]"
  by (simp add: issue_def)

lemma gl_viewport_calls: "calls (gl_viewport x y w ht g) = calls g @ [Viewport x y w ht]"
  by (simp add: gl_viewport_def Let_def issue_def)

lemma gl_viewport_viewport:
  "viewport (gl_viewport x y w ht g) = (if w < 0 \<or> ht < 0 then viewport g else (x, y, w, ht))"
  by (simp add: gl_viewport_def Let_def issue_def)

text \<open>With a canvas and a context, \<open>resizeCanvas\<close> returns, and this is the state it leaves.\<close>

lemma resizeCanvas_ready:
  assumes "canvas s = Some c" and "gl s = Some g"
  shows "resizeCanvas h s =
    Returned (s\<lparr>canvas := Some (c\<lparr>width := innerWidth h, height := innerHeight h\<rparr>),
               gl := Some (gl_viewport 0 0 (innerWidth h) (innerHeight h) g)\<rparr>)"
  using assms by (simp add: resizeCanvas_def Let_def)

text \<open>Running \<open>resizeCanvas\<close> a second time changes neither the canvas size nor the viewport.\<close>

lemma resizeCanvas_idempotent:
  assumes "canvas s = Some c" and "gl s = Some g"
    and "0 \<le> innerWidth h" and "0 \<le> innerHeight h"
  shows "\<exists>s1 s2 g1 g2. resizeCanvas h s = Returned s1 \<and> resizeCanvas h s1 = Returned s2
     \<and> canvas s2 = canvas s1 \<and> gl s1 = Some g1 \<and> gl s2 = Some g2 \<and> viewport g2 = viewport g1"
  using assms by (simp add: resizeCanvas_def Let_def gl_viewport_viewport)

lemma render_running:
  assumes "gl s = Some g" and "canvas s = Some c" and "program s = Some p"
  shows "render h now s =
    Returned (s\<lparr>gl := Some (g\<lparr>calls := calls g @
                 [GetUniformLocation p ''iResolution'', GetUniformLocation p ''iTime'',
                  Uniform2f (getUniformLocation h ''iResolution'') (width c) (height c),
                  Uniform1f (getUniformLocation h ''iTime'')
                    (real_of_int (now - startTime s) / 1000),
                  DrawArrays 0 6]\<rparr>),
               scheduled := scheduled s + 1\<rparr>)"
  using assms by (simp add: render_def Let_def issue_def)

text \<open>
  With the canvas element and a WebGL context, \<open>initShader\<close> returns whatever the compile
  statuses are: the program is linked and made current, one frame is drawn and the next
  one is requested; the console gains exactly the diagnostics of the rejected stages.
\<close>

lemma initShader_webgl:
  assumes "getElementById h ''shaderCanvas'' = Some c" and "getContext h ''webgl''"
  shows "\<exists>s' g. initShader h now s = Returned s' \<and> gl s' = Some g
     \<and> canvas s' = Some (c\<lparr>width := innerWidth h, height := innerHeight h\<rparr>)
     \<and> program s' = Some program_object
     \<and> console s' = console s @ compile_errors h
     \<and> scheduled s' = scheduled s + 1
     \<and> startTime s' = startTime s
     \<and> LinkProgram program_object \<in> set (calls g)
     \<and> UseProgram program_object \<in> set (calls g)
     \<and> DrawArrays 0 6 \<in> set (calls g)"
  using assms
  by (simp add: initShader_def Let_def resizeCanvas_def render_def issue_calls
        gl_viewport_calls vs_object_def fs_object_def program_object_def compile_errors_def)

text \<open>The WebGL side of \<open>initShader\<close> is the one of a run in which both stages compile.\<close>

lemma initShader_regardless:
  assumes "getElementById h ''shaderCanvas'' = Some c" and "getContext h ''webgl''"
  shows "\<exists>s' s''. initShader h now s = Returned s'
     \<and> initShader (h\<lparr>COMPILE_STATUS := (\<lambda>sh. True)\<rparr>) now s = Returned s''
     \<and> gl s' = gl s'' \<and> canvas s' = canvas s'' \<and> program s' = program s''
     \<and> scheduled s' = scheduled s''"
  using assms
  by (simp add: initShader_def Let_def resizeCanvas_def render_def)

text \<open>
  Claim C2. When a shader stage fails to compile during \<open>initShader\<close>, the info log of that
  stage is written to the console, the program is linked and activated all the same, and
  the function returns without throwing, having drawn a frame and requested the next: the
  WebGL calls and the pending frame are those of a run in which both stages compile.
\<close>

theorem compile_failure_proceeds:
  assumes "getElementById h ''shaderCanvas'' = Some c" and "getContext h ''webgl''"
    and "\<not> COMPILE_STATUS h vs_object \<or> \<not> COMPILE_STATUS h fs_object"
  shows "\<exists>s' g. initShader h now s = Returned s' \<and> gl s' = Some g
     \<and> program s' = Some program_object
     \<and> (\<not> COMPILE_STATUS h vs_object \<longrightarrow>
          ConsoleError ''Vertex shader error:'' (getShaderInfoLog h vs_object)
            \<in> set (console s'))
     \<and> (\<not> COMPILE_STATUS h fs_object \<longrightarrow>
          ConsoleError ''Fragment shader error:'' (getShaderInfoLog h fs_object)
            \<in> set (console s'))
     \<and> LinkProgram program_object \<in> set (calls g)
     \<and> UseProgram program_object \<in> set (calls g)
     \<and> DrawArrays 0 6 \<in> set (calls g)
     \<and> scheduled s' = scheduled s + 1
     \<and> (\<exists>s''. initShader (h\<lparr>COMPILE_STATUS := (\<lambda>sh. True)\<rparr>) now s = Returned s''
           \<and> gl s' = gl s'' \<and> program s' = program s'' \<and> scheduled s' = scheduled s'')"
proof -
  from initShader_webgl[OF assms(1,2), of now s] obtain s' g where
    r: "initShader h now s = Returned s'" and g: "gl s' = Some g"
    and p: "program s' = Some program_object"
    and c: "console s' = console s @ compile_errors h"
    and n: "scheduled s' = scheduled s + 1"
    and tr: "LinkProgram program_object \<in> set (calls g)"
      "UseProgram program_object \<in> set (calls g)" "DrawArrays 0 6 \<in> set (calls g)"
    by blast
  from initShader_regardless[OF assms(1,2), of now s] r obtain s'' where
    r2: "initShader (h\<lparr>COMPILE_STATUS := (\<lambda>sh. True)\<rparr>) now s = Returned s''"
    and same: "gl s' = gl s''" "program s' = program s''" "scheduled s' = scheduled s''"
    by auto
  have v: "\<not> COMPILE_STATUS h vs_object \<longrightarrow>
      ConsoleError ''Vertex shader error:'' (getShaderInfoLog h vs_object) \<in> set (console s')"
    by (simp add: c compile_errors_def)
  have f: "\<not> COMPILE_STATUS h fs_object \<longrightarrow>
      ConsoleError ''Fragment shader error:'' (getShaderInfoLog h fs_object) \<in> set (console s')"
    by (simp add: c compile_errors_def)
  show ?thesis using r g p v f tr n r2 same by simp
qed

theorem compile_failure_proceeds_witness:
  "\<not> COMPILE_STATUS bad_fragment_host fs_object
   \<and> (\<exists>s' g. initShader bad_fragment_host 1000 (module_init 0) = Returned s' \<and> gl s' = Some g
     \<and> ConsoleError ''Fragment shader error:'' ''ERROR: 0:1: syntax error'' \<in> set (console s')
     \<and> LinkProgram program_object \<in> set (calls g)
     \<and> UseProgram program_object \<in> set (calls g)
     \<and> scheduled s' = 1)"
proof -
  have a: "getElementById bad_fragment_host ''shaderCanvas'' = Some \<lparr>width = 300, height = 150\<rparr>"
    by (simp add: bad_fragment_host_def good_host_def)
  have b: "getContext bad_fragment_host ''webgl''"
    by (simp add: bad_fragment_host_def good_host_def)
  have c: "\<not> COMPILE_STATUS bad_fragment_host vs_object
           \<or> \<not> COMPILE_STATUS bad_fragment_host fs_object"
    by (simp add: bad_fragment_host_def good_host_def fs_object_def)
  have d: "\<not> COMPILE_STATUS bad_fragment_host fs_object"
    "getShaderInfoLog bad_fragment_host fs_object = ''ERROR: 0:1: syntax error''"
    by (simp_all add: bad_fragment_host_def good_host_def fs_object_def)
  have e: "scheduled (module_init 0) = 0" by (simp add: module_init_def)
  show ?thesis
    using compile_failure_proceeds [OF a b c, of 1000 "module_init 0"] c d e by auto
qed

text \<open>
  Claim C3. For every viewport size \<open>(w, h)\<close> with \<open>w > 0\<close> and \<open>h > 0\<close>, after
  \<open>resizeCanvas\<close> has run on a renderer that has its canvas and its context, the canvas
  reports the size \<open>(w, h)\<close> and the viewport of the context is the rectangle from
  \<open>(0, 0)\<close> with width \<open>w\<close> and height \<open>h\<close>.
\<close>

theorem resize_sets_surface_and_viewport:
  assumes "canvas s = Some c" and "gl s = Some g"
    and "innerWidth h = w" and "innerHeight h = ht" and "0 < w" and "0 < ht"
  shows "\<exists>s' c' g'. resizeCanvas h s = Returned s' \<and> canvas s' = Some c' \<and> gl s' = Some g'
     \<and> (width c', height c') = (w, ht) \<and> viewport g' = (0, 0, w, ht)"
  using assms by (simp add: resizeCanvas_ready gl_viewport_viewport)

theorem resize_sets_surface_and_viewport_witness:
  "(0::int) < 800 \<and> (0::int) < 600
   \<and> (\<exists>s' c' g'. resizeCanvas good_host running_renderer = Returned s' \<and> canvas s' = Some c'
        \<and> gl s' = Some g' \<and> (width c', height c') = (800, 600)
        \<and> viewport g' = (0, 0, 800, 600))"
  using resize_sets_surface_and_viewport [of running_renderer "\<lparr>width = 300, height = 150\<rparr>"
      "\<lparr>calls = [], viewport = (0, 0, 300, 150)\<rparr>" good_host 800 600]
  by (simp add: running_renderer_def good_host_def)

lemma iTime_values_append: "iTime_values (xs @ ys) = iTime_values xs @ iTime_values ys"
  by (induction xs rule: iTime_values.induct) simp_all

text \<open>One frame of a running renderer: it stays running and pushes one more \<open>iTime\<close> value.\<close>

lemma frame_running:
  assumes "gl s = Some g" and "canvas s = Some c" and "program s = Some p"
    and "0 < scheduled s"
  shows "\<exists>s' g'. dispatch h now AnimationFrame s = Returned s' \<and> gl s' = Some g'
     \<and> canvas s' = Some c \<and> program s' = Some p \<and> startTime s' = startTime s
     \<and> scheduled s' = scheduled s
     \<and> iTime_values (calls g') =
         iTime_values (calls g) @ [real_of_int (now - startTime s) / 1000]"
  using assms by (simp add: render_running iTime_values_append)

lemma frames_running:
  assumes "gl s = Some g" and "canvas s = Some c" and "program s = Some p"
    and "0 < scheduled s"
  shows "\<exists>s' g'. frames h nows s = Returned s' \<and> gl s' = Some g'
     \<and> iTime_values (calls g') =
         iTime_values (calls g) @ map (\<lambda>now. real_of_int (now - startTime s) / 1000) nows"
  using assms
proof (induction nows arbitrary: s g)
  case Nil
  then show ?case by simp
next
  case (Cons now nows)
  from frame_running[OF Cons.prems, of h now] obtain s1 g1 where
    st: "dispatch h now AnimationFrame s = Returned s1" "gl s1 = Some g1"
      "canvas s1 = Some c" "program s1 = Some p" "startTime s1 = startTime s"
      "scheduled s1 = scheduled s"
    and v: "iTime_values (calls g1) =
              iTime_values (calls g) @ [real_of_int (now - startTime s) / 1000]"
    by blast
  have "0 < scheduled s1" using st Cons.prems by simp
  from Cons.IH[OF st(2) st(3) st(4) this] obtain s' g' where
    "frames h nows s1 = Returned s'" "gl s' = Some g'"
    "iTime_values (calls g') =
       iTime_values (calls g1) @ map (\<lambda>now. real_of_int (now - startTime s1) / 1000) nows"
    by blast
  then show ?case using st v by simp
qed

lemma sorted_elapsed:
  "sorted nows \<Longrightarrow> sorted (map (\<lambda>now. real_of_int (now - start) / 1000) nows)"
  by (induction nows) (auto simp: divide_right_mono)

lemma sorted_ticks: "sorted (map (\<lambda>k. 16 * int k) [0..<n])"
  by (simp add: sorted_map sorted_wrt_iff_nth_less)

text \<open>
  Claim C6. For a fixed start time and any sequence of frames whose clock readings are
  non-decreasing, the elapsed times \<open>(now - startTime) / 1000\<close> that \<open>render\<close> pushes into
  \<open>iTime\<close> are non-decreasing from frame to frame; the sequence may have any length, 1000
  frames included, and every frame of it returns.
\<close>

theorem elapsedTime_monotone:
  assumes "gl s = Some g" and "canvas s = Some c" and "program s = Some p"
    and "0 < scheduled s" and "sorted nows"
  shows "\<exists>s' g' times. frames h nows s = Returned s' \<and> gl s' = Some g'
     \<and> iTime_values (calls g') = iTime_values (calls g) @ times
     \<and> times = map (\<lambda>now. real_of_int (now - startTime s) / 1000) nows
     \<and> sorted times"
  using frames_running[OF assms(1-4), of h nows] sorted_elapsed[OF assms(5), of "startTime s"]
  by auto

theorem elapsedTime_monotone_witness:
  "sorted (map (\<lambda>k. 16 * int k) [0..<1000])
   \<and> length (map (\<lambda>k. 16 * int k) [0..<1000]) = 1000
   \<and> (\<exists>s' g' times.
        frames good_host (map (\<lambda>k. 16 * int k) [0..<1000]) running_renderer = Returned s'
        \<and> gl s' = Some g' \<and> iTime_values (calls g') = times \<and> length times = 1000
        \<and> sorted times)"
proof -
  have a: "gl running_renderer = Some \<lparr>calls = [], viewport = (0, 0, 300, 150)\<rparr>"
    "canvas running_renderer = Some \<lparr>width = 300, height = 150\<rparr>"
    "program running_renderer = Some program_object" "0 < scheduled running_renderer"
    by (simp_all add: running_renderer_def)
  have b: "sorted (map (\<lambda>k. 16 * int k) [0..<1000])" by (rule sorted_ticks)
  show ?thesis
    using elapsedTime_monotone [OF a b, of good_host] b by auto
qed

text \<open>
  Claim C7. When the context is unavailable, \<open>initShader\<close> logs the failure, sets nothing
  up and returns; the claim adds that no exception is raised afterwards, a later resize
  event included. The run below is a browser without WebGL: the load event leaves the
  console line, no context, no program and no pending frame, and the resize event that
  follows throws a \<open>TypeError\<close>, as \<open>resizeCanvas\<close> calls \<open>gl.viewport\<close> on the missing
  context.
\<close>

theorem resize_after_failed_init_throws:
  "dispatch no_webgl_host 1000 Load (module_init 0) =
     Returned \<lparr>canvas = Some \<lparr>width = 300, height = 150\<rparr>, gl = None, program = None,
               startTime = 0, console = [ConsoleLog ''WebGL not supported''], scheduled = 0\<rparr>
   \<and> dispatch no_webgl_host 2000 Resize
       \<lparr>canvas = Some \<lparr>width = 300, height = 150\<rparr>, gl = None, program = None,
        startTime = 0, console = [ConsoleLog ''WebGL not supported''], scheduled = 0\<rparr> =
     Threw TypeError
       \<lparr>canvas = Some \<lparr>width = 800, height = 600\<rparr>, gl = None, program = None,
        startTime = 0, console = [ConsoleLog ''WebGL not supported''], scheduled = 0\<rparr>"
  by (simp add: initShader_def resizeCanvas_def no_webgl_host_def good_host_def
        module_init_def Let_def)

text \<open>
  Claim C9. The claim is that \<open>resizeCanvas\<close> is idempotent and never fails. It does fail:
  before the load event \<open>canvas\<close> is still undefined and the assignment to \<open>canvas.width\<close>
  throws, and without a context the call of \<open>gl.viewport\<close> throws, every time the handler
  runs. The last state below is the one \<open>initShader\<close> leaves in a browser without WebGL.
\<close>

theorem resizeCanvas_can_throw:
  "resizeCanvas good_host (module_init 0) = Threw TypeError (module_init 0)
   \<and> resizeCanvas no_webgl_host (running_renderer\<lparr>gl := None\<rparr>) =
       Threw TypeError
         (running_renderer\<lparr>canvas := Some \<lparr>width = 800, height = 600\<rparr>, gl := None\<rparr>)
   \<and> resizeCanvas no_webgl_host
       \<lparr>canvas = Some \<lparr>width = 300, height = 150\<rparr>, gl = None, program = None,
        startTime = 0, console = [ConsoleLog ''WebGL not supported''], scheduled = 0\<rparr> =
       Threw TypeError
         \<lparr>canvas = Some \<lparr>width = 800, height = 600\<rparr>, gl = None, program = None,
          startTime = 0, console = [ConsoleLog ''WebGL not supported''], scheduled = 0\<rparr>"
  by (simp add: resizeCanvas_def no_webgl_host_def good_host_def module_init_def Let_def
        running_renderer_def)

end
